theory Spec2Isabelle
  imports Main "HOL-Library.Sublist" "HOL-Library.Word"
begin

section \<open>The text filter widget of dc.js (src/charts/text-filter-widget.js)\<close>

subsection \<open>JavaScript values, errors and results\<close>

text \<open>
  A string of the language is a sequence of 16-bit code units. \<open>lit\<close> gives the code
  units of a literal whose characters have codes below 256, one unit per character.
\<close>

type_synonym jsstring = "16 word list"

definition lit :: "string \<Rightarrow> jsstring" where
  "lit s = map of_char s"

text \<open>
  The values that reach the widget as data: the primitive values \<open>undefined\<close>,
  \<open>null\<close>, booleans and strings. The query text of an input element and the value of
  a record are strings in every documented use. Numbers and objects are outside this
  model.
\<close>

datatype jsval = Undefined | Null | Boolean bool | Str jsstring

text \<open>
  A \<open>throw\<close> of the source, and the \<open>TypeError\<close> that the language raises when
  a method is looked up on \<open>undefined\<close> or \<open>null\<close> or when something that is
  not a function is called.
\<close>

datatype error = TypeError | Thrown string

text \<open>
  What an accessor returns: either a value, or \<open>this\<close> (the instance itself, whose
  state is the state returned next to it).
\<close>

datatype 'a ret = Val 'a | This

text \<open>Sequencing of fallible computations: the first error ends the computation.\<close>

definition and_then :: "error + 'a \<Rightarrow> ('a \<Rightarrow> error + 'b) \<Rightarrow> error + 'b" where
  "and_then r f = (case r of Inl e \<Rightarrow> Inl e | Inr x \<Rightarrow> f x)"

subsection \<open>The string methods the widget calls\<close>

text \<open>
  \<open>String.prototype.toLowerCase\<close>. On a string whose code units are all below 128
  (ASCII) the letters \<open>A\<close> to \<open>Z\<close>, codes 65 to 90, become \<open>a\<close> to \<open>z\<close> and nothing
  else changes. On every other string the result is the one that the Unicode case
  mapping of the language gives; that mapping is not part of the sources and is the
  parameter \<open>unicode_lower\<close>, so that what is proved holds whatever it is.
\<close>

definition lower_ascii :: "16 word \<Rightarrow> 16 word" where
  "lower_ascii c = (if 65 \<le> c \<and> c \<le> 90 then c + 32 else c)"

definition toLowerCase :: "(jsstring \<Rightarrow> jsstring) \<Rightarrow> jsstring \<Rightarrow> jsstring" where
  "toLowerCase unicode_lower s =
     (if list_all (\<lambda>c. c < 128) s then map lower_ascii s else unicode_lower s)"

text \<open>
  \<open>String.prototype.indexOf(searchString)\<close>: the least position at which
  \<open>searchString\<close> occurs in the receiver, or \<open>-1\<close> when it occurs nowhere. The
  scan starts at position 0 and the empty string occurs at position 0.
\<close>

fun indexOf_from :: "nat \<Rightarrow> 'a list \<Rightarrow> 'a list \<Rightarrow> int" where
  "indexOf_from k [] q = (if q = [] then int k else - 1)"
| "indexOf_from k (c # s) q =
     (if prefix q (c # s) then int k else indexOf_from (Suc k) s q)"

definition indexOf :: "'a list \<Rightarrow> 'a list \<Rightarrow> int" where
  "indexOf s q = indexOf_from 0 s q"

text \<open>\<open>ToString\<close> on the values of the model, as \<open>indexOf\<close> applies it to its argument.\<close>

fun ToString :: "jsval \<Rightarrow> jsstring" where
  "ToString Undefined = lit ''undefined''"
| "ToString Null = lit ''null''"
| "ToString (Boolean b) = (if b then lit ''true'' else lit ''false'')"
| "ToString (Str s) = s"

text \<open>
  The method calls \<open>v.toLowerCase()\<close> and \<open>v.indexOf(q)\<close> on a value \<open>v\<close>: only a
  string has these methods, on every other value of the model the call raises
  \<open>TypeError\<close>.
\<close>

fun call_toLowerCase :: "(jsstring \<Rightarrow> jsstring) \<Rightarrow> jsval \<Rightarrow> error + jsval" where
  "call_toLowerCase unicode_lower (Str s) = Inr (Str (toLowerCase unicode_lower s))"
| "call_toLowerCase unicode_lower v = Inl TypeError"

fun call_indexOf :: "jsval \<Rightarrow> jsval \<Rightarrow> error + int" where
  "call_indexOf (Str s) q = Inr (indexOf s (ToString q))"
| "call_indexOf v q = Inl TypeError"

subsection \<open>Function values\<close>

text \<open>
  A normalization function maps a value to a value and may raise. The closures that
  the constructor builds read the field \<open>this._normalize\<close> at the moment they are
  called, not at the moment they are built; so a filter-function factory and the
  predicate it returns each take, as their first argument, the value that
  \<open>this._normalize\<close> holds when they are called.
\<close>

type_synonym normalizer = "jsval \<Rightarrow> error + jsval"

type_synonym predicate = "normalizer \<Rightarrow> jsval \<Rightarrow> error + bool"

type_synonym factory = "normalizer \<Rightarrow> jsval \<Rightarrow> error + predicate"

text \<open>Line 43: \<open>this._normalize = s => s.toLowerCase()\<close>.\<close>

definition default_normalize :: "(jsstring \<Rightarrow> jsstring) \<Rightarrow> normalizer" where
  "default_normalize unicode_lower s = call_toLowerCase unicode_lower s"

text \<open>
  Line 47, the predicate \<open>d => this._normalize(d).indexOf(query) !== -1\<close>, with
  the captured, already normalized \<open>query\<close>.
\<close>

definition default_predicate :: "jsval \<Rightarrow> predicate" where
  "default_predicate query this_normalize d =
     and_then (this_normalize d) (\<lambda>nd.
       and_then (call_indexOf nd query) (\<lambda>i. Inr (i \<noteq> - 1)))"

text \<open>
  Lines 45 to 48:
  \<^verbatim>\<open>query => { query = this._normalize(query); return d => ...; }\<close>
\<close>

definition default_filterFunctionFactory :: factory where
  "default_filterFunctionFactory this_normalize query =
     and_then (this_normalize query) (\<lambda>query'. Inr (default_predicate query'))"

subsection \<open>The document under the mount point\<close>

text \<open>
  The only listener the widget registers is the function of lines 66 to 71.
\<close>

datatype listener = InputListener

text \<open>
  An element has a tag name, a class list, attributes, the listeners registered on
  it by event type, and child elements in document order.
\<close>

datatype node =
  Element (tagName: string) (classNames: "string list")
    (attributes: "string \<rightharpoonup> jsstring") (listeners: "(string \<times> listener) list")
    (childNodes: "node list")

definition set_childNodes :: "node list \<Rightarrow> node \<Rightarrow> node" where
  "set_childNodes ch n = Element (tagName n) (classNames n) (attributes n) (listeners n) ch"

text \<open>The number of elements with tag \<open>t\<close> in a forest, at any depth.\<close>

fun count_tag :: "string \<Rightarrow> node list \<Rightarrow> nat" where
  "count_tag t [] = 0"
| "count_tag t (Element tg cs at ls ch # ns) =
     (if tg = t then 1 else 0) + count_tag t ch + count_tag t ns"

text \<open>
  The widget consumes a DOM selection API (\<open>select\<close>, \<open>append\<close>, \<open>classed\<close>,
  \<open>attr\<close>, \<open>on\<close>, \<open>selectAll\<close>, \<open>remove\<close>); the library that provides it,
  d3-selection, is not among the sources. The definitions below give these methods the
  meaning they have there, on a selection that holds one element.
\<close>

text \<open>
  Modelled from the spec: \<open>selection.select(t).remove()\<close>. \<open>select\<close> takes the
  first descendant with tag \<open>t\<close> in document order, \<open>remove\<close> detaches it (with its
  subtree) from its parent; when there is no such descendant nothing changes.
  \<open>select_remove\<close> works on the children of the selected element and returns \<open>None\<close>
  when nothing matched.
\<close>

fun select_remove :: "string \<Rightarrow> node list \<Rightarrow> node list option" where
  "select_remove t [] = None"
| "select_remove t (Element tg cs at ls ch # ns) =
     (if tg = t then Some ns
      else case select_remove t ch of
             Some ch' \<Rightarrow> Some (Element tg cs at ls ch' # ns)
           | None \<Rightarrow>
              (case select_remove t ns of
                 Some ns' \<Rightarrow> Some (Element tg cs at ls ch # ns')
               | None \<Rightarrow> None))"

definition d3_select_remove :: "string \<Rightarrow> node \<Rightarrow> node" where
  "d3_select_remove t root =
     (case select_remove t (childNodes root) of
        None \<Rightarrow> root
      | Some ch \<Rightarrow> set_childNodes ch root)"

text \<open>
  Modelled from the spec: \<open>selection.append(t)\<close>. A new element with tag \<open>t\<close>, without classes, attributes,
  listeners or children, becomes the last child of the selected element.
\<close>

definition d3_append :: "string \<Rightarrow> node \<Rightarrow> node" where
  "d3_append t root = set_childNodes (childNodes root @ [Element t [] Map.empty [] []]) root"

text \<open>
  Modelled from the spec: \<open>selection.classed(c, flag)\<close> on one element. It adds the
  class when the flag is true and removes it otherwise.
\<close>

definition d3_classed :: "string \<Rightarrow> bool \<Rightarrow> node \<Rightarrow> node" where
  "d3_classed c flag n =
     Element (tagName n)
       (if flag then (if c \<in> set (classNames n) then classNames n else classNames n @ [c])
        else removeAll c (classNames n))
       (attributes n) (listeners n) (childNodes n)"

text \<open>
  Modelled from the spec: \<open>selection.on(type, f)\<close> on one element. It registers \<open>f\<close>
  for the event type, in place of a listener registered for that type before.
\<close>

definition d3_on :: "string \<Rightarrow> listener \<Rightarrow> node \<Rightarrow> node" where
  "d3_on ty f n =
     Element (tagName n) (classNames n) (attributes n)
       (filter (\<lambda>(ty', g). ty' \<noteq> ty) (listeners n) @ [(ty, f)]) (childNodes n)"

text \<open>
  Modelled from the spec: \<open>selection.attr(name, v)\<close> on one element. The values
  \<open>null\<close> and \<open>undefined\<close> remove the attribute, every other value is stored as its
  string.
\<close>

definition d3_attr :: "string \<Rightarrow> jsval \<Rightarrow> node \<Rightarrow> node" where
  "d3_attr name v n =
     Element (tagName n) (classNames n)
       (if v = Undefined \<or> v = Null then (attributes n)(name := None)
        else (attributes n)(name \<mapsto> ToString v))
       (listeners n) (childNodes n)"

text \<open>
  Modelled from the spec: \<open>selection.selectAll(t)\<close> followed by a method \<open>f\<close> that
  changes the selected elements themselves. \<open>selectAll\<close> takes every descendant with
  tag \<open>t\<close>, and \<open>f\<close> is applied to each of them.
\<close>

fun selectAll_each :: "string \<Rightarrow> (node \<Rightarrow> node) \<Rightarrow> node list \<Rightarrow> node list" where
  "selectAll_each t f [] = []"
| "selectAll_each t f (Element tg cs at ls ch # ns) =
     (if tg = t then set_childNodes (selectAll_each t f ch) (f (Element tg cs at ls ch))
      else Element tg cs at ls (selectAll_each t f ch))
     # selectAll_each t f ns"

definition d3_selectAll_attr :: "string \<Rightarrow> string \<Rightarrow> jsval \<Rightarrow> node \<Rightarrow> node" where
  "d3_selectAll_attr t name v root =
     set_childNodes (selectAll_each t (d3_attr name v) (childNodes root)) root"

text \<open>A method applied to the selection of the child at position \<open>i\<close>.\<close>

definition on_child :: "nat \<Rightarrow> (node \<Rightarrow> node) \<Rightarrow> node \<Rightarrow> node" where
  "on_child i f root =
     (if i < length (childNodes root)
      then set_childNodes ((childNodes root)[i := f (childNodes root ! i)]) root
      else root)"

subsection \<open>The state of a widget\<close>

text \<open>
  A group value is a function without parameters, as the one the constructor passes
  (lines 52 to 54); arguments given to it in a call are ignored. A dimension holds the filter function installed last, if any. A call of
  \<open>events.trigger\<close> hands over a callback and a delay; the one callback of the
  source is \<open>() => { redrawAll(); }\<close>, which calls \<open>redrawAll\<close> with the argument
  list kept here (the empty one).
\<close>

type_synonym group_value = "unit \<Rightarrow> error + jsval"

datatype dimension = Dimension (activeFilter: "predicate option")

datatype callback = CallRedrawAll "jsval list"

text \<open>
  The fields of an instance: \<open>_normalize\<close>, \<open>_filterFunctionFactory\<close>,
  \<open>_placeHolder\<close> and \<open>_input\<close> of the class itself, and what the members
  inherited from the base mixin keep (the installed group function, \<open>_root\<close>,
  \<open>_chartGroup\<close>, \<open>_dimension\<close>); \<open>None\<close> is \<open>undefined\<close>. \<open>_input\<close> refers to a child of the
  mount point by its position. \<open>triggered\<close> is the trace of the calls of
  \<open>events.trigger\<close> that the instance has made.
\<close>

record widget =
  priv_normalize :: normalizer
  priv_filterFunctionFactory :: factory
  priv_placeHolder :: jsval
  priv_input :: "nat option"
  base_group :: "group_value option"
  base_root :: "node option"
  base_chartGroup :: jsval
  base_dimension :: "dimension option"
  triggered :: "(callback \<times> nat) list"

subsection \<open>Members inherited from the base mixin\<close>

text \<open>
  Modelled from the spec: \<open>BaseMixin.anchor\<close> (base/base-mixin.js, which is not
  among the sources), "anchors itself to the DOM": the mount point becomes the root of
  the instance and the chart group is kept.
\<close>

definition BaseMixin_anchor :: "node \<Rightarrow> jsval \<Rightarrow> widget \<Rightarrow> error + widget" where
  "BaseMixin_anchor parent chartGroup this =
     Inr (this\<lparr>base_root := Some parent, base_chartGroup := chartGroup\<rparr>)"

text \<open>
  Modelled from the spec: the inherited member \<open>group\<close> (base/base-mixin.js, which is
  not among the sources). The spec says that construction "installs a placeholder
  group accessor that fails loudly (signals a usage error) if ever invoked", and that
  "invoking the group accessor (with zero or one arguments) always raises the
  designated error". So a call with an argument while nothing is installed, as the one
  of line 52, installs the argument and returns the instance; once a function is
  installed, invoking the accessor is invoking that function, whatever the arguments.
\<close>

definition BaseMixin_group :: "group_value list \<Rightarrow> widget \<Rightarrow> error + (jsval ret \<times> widget)" where
  "BaseMixin_group args this =
     (case base_group this of
        None \<Rightarrow>
          (if length args = 0 then Inr (Val Undefined, this)
           else Inr (This, this\<lparr>base_group := Some (hd args)\<rparr>))
      | Some g \<Rightarrow> and_then (g ()) (\<lambda>v. Inr (Val v, this)))"

text \<open>
  Modelled from the spec: \<open>BaseMixin.dimension\<close> (base/base-mixin.js, which is
  not among the sources), the "dimension accessor" of the base contract. Without an
  argument it returns the bound dimension; with one it binds the "externally supplied
  data dimension" and returns the instance.
\<close>

definition BaseMixin_dimension :: "dimension list \<Rightarrow> widget \<Rightarrow> dimension option ret \<times> widget" where
  "BaseMixin_dimension args this =
     (if length args = 0 then (Val (base_dimension this), this)
      else (This, this\<lparr>base_dimension := Some (hd args)\<rparr>))"

text \<open>
  Modelled from the spec: \<open>filterFunction\<close> of a dimension (crossfilter), "filter-predicate
  installation": the function becomes the active filter of the dimension.
\<close>

definition filterFunction :: "predicate \<Rightarrow> dimension \<Rightarrow> dimension" where
  "filterFunction f dim = Dimension (Some f)"

text \<open>
  Modelled from the spec: \<open>events.trigger\<close> (core/events.js, which is not among the
  sources), "a debounced-trigger function taking a callback and a delay": the call is
  recorded; running the callback later is the business of that module.
\<close>

definition events_trigger :: "callback \<Rightarrow> nat \<Rightarrow> widget \<Rightarrow> widget" where
  "events_trigger cb delay this = this\<lparr>triggered := triggered this @ [(cb, delay)]\<rparr>"

subsection \<open>The class \<open>TextFilterWidget\<close>\<close>

definition INPUT_CSS_CLASS :: string where
  "INPUT_CSS_CLASS = ''dc-text-filter-input''"

definition group_message :: string where
  "group_message =
     ''the group function on textFilterWidget should never be called, please report the issue''"

text \<open>Lines 52 to 54, the function \<open>() => { throw '...'; }\<close>.\<close>

definition group_thrower :: group_value where
  "group_thrower u = Inl (Thrown group_message)"

text \<open>
  Lines 41 to 50: the object after \<open>super()\<close> and the three assignments; the fields
  of the base mixin are still \<open>undefined\<close>.
\<close>

definition new_instance :: "(jsstring \<Rightarrow> jsstring) \<Rightarrow> widget" where
  "new_instance unicode_lower =
     \<lparr>priv_normalize = default_normalize unicode_lower,
      priv_filterFunctionFactory = default_filterFunctionFactory,
      priv_placeHolder = Str (lit ''search''),
      priv_input = None,
      base_group = None,
      base_root = None,
      base_chartGroup = Undefined,
      base_dimension = None,
      triggered = []\<rparr>"

text \<open>
  Lines 40 to 57, the constructor. \<open>inherited_group\<close> is the member \<open>group\<close> that
  the instance inherits; line 52 calls it with one argument. An exception of that call
  or of \<open>anchor\<close> leaves the constructor, and no instance results.
\<close>

definition TextFilterWidget ::
  "(jsstring \<Rightarrow> jsstring)
     \<Rightarrow> (group_value list \<Rightarrow> widget \<Rightarrow> error + (jsval ret \<times> widget))
     \<Rightarrow> node \<Rightarrow> jsval \<Rightarrow> error + widget" where
  "TextFilterWidget unicode_lower inherited_group parent chartGroup =
     and_then (inherited_group [group_thrower] (new_instance unicode_lower)) (\<lambda>(r, this).
       BaseMixin_anchor parent chartGroup this)"

text \<open>Lines 78 to 83, \<open>_doRedraw\<close>.\<close>

definition doRedraw :: "widget \<Rightarrow> error + widget" where
  "doRedraw this =
     (case base_root this of
        None \<Rightarrow> Inl TypeError
      | Some root \<Rightarrow>
          Inr (this\<lparr>base_root :=
                 Some (d3_selectAll_attr ''input'' ''placeholder'' (priv_placeHolder this) root)\<rparr>))"

text \<open>
  Lines 59 to 76, \<open>_doRender\<close>. The new element is the last child of the mount
  point; \<open>classed\<close> and \<open>on\<close> act on it.
\<close>

definition doRender :: "widget \<Rightarrow> error + widget" where
  "doRender this =
     (case base_root this of
        None \<Rightarrow> Inl TypeError
      | Some root \<Rightarrow>
          (let root1 = d3_select_remove ''input'' root;
               i = length (childNodes root1);
               root2 = d3_append ''input'' root1;
               root3 = on_child i (d3_classed INPUT_CSS_CLASS True) root2;
               root4 = on_child i (d3_on ''input'' InputListener) root3
           in doRedraw (this\<lparr>base_root := Some root4, priv_input := Some i\<rparr>)))"

text \<open>
  Lines 66 to 71, the listener; \<open>this_value\<close> is \<open>this.value\<close>, the current text of
  the input element, and \<open>EVENT_DELAY\<close> is \<open>constants.EVENT_DELAY\<close>.
  \<open>self.dimension()\<close> is \<open>undefined\<close> when no dimension is bound, and the method
  call on it raises before the factory is called.
\<close>

definition input_listener :: "nat \<Rightarrow> jsval \<Rightarrow> widget \<Rightarrow> error + widget" where
  "input_listener EVENT_DELAY this_value self =
     (case base_dimension self of
        None \<Rightarrow> Inl TypeError
      | Some dim \<Rightarrow>
          and_then (priv_filterFunctionFactory self (priv_normalize self) this_value) (\<lambda>f.
            Inr (events_trigger (CallRedrawAll []) EVENT_DELAY
                   (self\<lparr>base_dimension := Some (filterFunction f dim)\<rparr>))))"

text \<open>
  Lines 98 to 104, \<open>normalize\<close> (the name alone is a constant of the library).
\<close>

definition normalize_acc :: "normalizer list \<Rightarrow> widget \<Rightarrow> normalizer ret \<times> widget" where
  "normalize_acc args this =
     (if length args = 0 then (Val (priv_normalize this), this)
      else (This, this\<lparr>priv_normalize := hd args\<rparr>))"

text \<open>Lines 117 to 123, \<open>placeHolder\<close>.\<close>

definition placeHolder :: "jsval list \<Rightarrow> widget \<Rightarrow> jsval ret \<times> widget" where
  "placeHolder args this =
     (if length args = 0 then (Val (priv_placeHolder this), this)
      else (This, this\<lparr>priv_placeHolder := hd args\<rparr>))"

text \<open>Lines 142 to 148, \<open>filterFunctionFactory\<close>.\<close>

definition filterFunctionFactory :: "factory list \<Rightarrow> widget \<Rightarrow> factory ret \<times> widget" where
  "filterFunctionFactory args this =
     (if length args = 0 then (Val (priv_filterFunctionFactory this), this)
      else (This, this\<lparr>priv_filterFunctionFactory := hd args\<rparr>))"

subsection \<open>Events and the active filter\<close>

text \<open>The element that \<open>_input\<close> refers to, when there is one.\<close>

definition rendered_input :: "widget \<Rightarrow> node option" where
  "rendered_input this =
     (case (base_root this, priv_input this) of
        (Some root, Some i) \<Rightarrow>
          (if i < length (childNodes root) then Some (childNodes root ! i) else None)
      | _ \<Rightarrow> None)"

text \<open>
  An \<open>input\<close> event on the rendered element while its text is \<open>text\<close>: the listener
  registered for that event type runs; without one nothing happens.
\<close>

definition keystroke :: "nat \<Rightarrow> jsstring \<Rightarrow> widget \<Rightarrow> error + widget" where
  "keystroke EVENT_DELAY text this =
     (case rendered_input this of
        None \<Rightarrow> Inr this
      | Some n \<Rightarrow>
          (case map_of (listeners n) ''input'' of
             None \<Rightarrow> Inr this
           | Some InputListener \<Rightarrow> input_listener EVENT_DELAY (Str text) this))"

text \<open>
  What the active filter of the bound dimension answers for a record value: the filter
  function is called while \<open>this._normalize\<close> is what the state says.
\<close>

definition filter_accepts :: "widget \<Rightarrow> jsval \<Rightarrow> (error + bool) option" where
  "filter_accepts this d =
     (case base_dimension this of
        None \<Rightarrow> None
      | Some dim \<Rightarrow>
          (case activeFilter dim of
             None \<Rightarrow> None
           | Some f \<Rightarrow> Some (f (priv_normalize this) d)))"

text \<open>
  A predicate built by the configured factory from \<open>query\<close> in the state \<open>built\<close> and
  called on \<open>d\<close> in the state \<open>called\<close>.
\<close>

definition build_then_call :: "widget \<Rightarrow> jsval \<Rightarrow> widget \<Rightarrow> jsval \<Rightarrow> error + bool" where
  "build_then_call built query called d =
     and_then (priv_filterFunctionFactory built (priv_normalize built) query) (\<lambda>f.
       f (priv_normalize called) d)"

text \<open>Whether every element with tag \<open>t\<close> in a forest, at any depth, satisfies \<open>P\<close>.\<close>

fun all_tagged :: "string \<Rightarrow> (node \<Rightarrow> bool) \<Rightarrow> node list \<Rightarrow> bool" where
  "all_tagged t P [] = True"
| "all_tagged t P (Element tg cs at ls ch # ns) =
     ((if tg = t then P (Element tg cs at ls ch) else True)
      \<and> all_tagged t P ch \<and> all_tagged t P ns)"

text \<open>The number of input elements under the mount point.\<close>

definition input_count :: "widget \<Rightarrow> nat" where
  "input_count this =
     (case base_root this of None \<Rightarrow> 0 | Some root \<Rightarrow> count_tag ''input'' (childNodes root))"

text \<open>\<open>n\<close> calls of \<open>_doRender\<close> in succession.\<close>

fun render_times :: "nat \<Rightarrow> widget \<Rightarrow> error + widget" where
  "render_times 0 this = Inr this"
| "render_times (Suc n) this = and_then (doRender this) (render_times n)"

text \<open>
  The operations of an instance that the class defines, as a caller invokes them,
  and a sequence of them; an exception ends the sequence.
\<close>

datatype operation =
  Render
| Redraw
| Normalize "normalizer list"
| PlaceHolder "jsval list"
| FilterFunctionFactory "factory list"

fun perform :: "operation \<Rightarrow> widget \<Rightarrow> error + widget" where
  "perform Render this = doRender this"
| "perform Redraw this = doRedraw this"
| "perform (Normalize args) this = Inr (snd (normalize_acc args this))"
| "perform (PlaceHolder args) this = Inr (snd (placeHolder args this))"
| "perform (FilterFunctionFactory args) this = Inr (snd (filterFunctionFactory args this))"

fun perform_all :: "operation list \<Rightarrow> widget \<Rightarrow> error + widget" where
  "perform_all [] this = Inr this"
| "perform_all (op # ops) this = and_then (perform op this) (perform_all ops)"

subsection \<open>Example inputs\<close>

text \<open>
  An empty \<open>div\<close> as mount point, and a \<open>div\<close> that already holds two input
  elements.
\<close>

definition empty_mount :: node where
  "empty_mount = Element ''div'' [] Map.empty [] []"

definition crowded_mount :: node where
  "crowded_mount =
     Element ''div'' [] Map.empty []
       [Element ''input'' [] Map.empty [] [], Element ''input'' [] Map.empty [] []]"

text \<open>
  The instance that \<open>textFilterWidget(parent)\<close> returns for the empty mount point,
  and the same instance after \<open>.dimension(dim)\<close> with a dimension without a filter.
\<close>

definition fresh_widget :: "(jsstring \<Rightarrow> jsstring) \<Rightarrow> widget" where
  "fresh_widget unicode_lower =
     \<lparr>priv_normalize = default_normalize unicode_lower,
      priv_filterFunctionFactory = default_filterFunctionFactory,
      priv_placeHolder = Str (lit ''search''),
      priv_input = None,
      base_group = Some group_thrower,
      base_root = Some empty_mount,
      base_chartGroup = Undefined,
      base_dimension = None,
      triggered = []\<rparr>"

definition bound_widget :: "(jsstring \<Rightarrow> jsstring) \<Rightarrow> widget" where
  "bound_widget unicode_lower =
     snd (BaseMixin_dimension [Dimension None] (fresh_widget unicode_lower))"

text \<open>
  Functions a caller may configure: the factory \<open>query => d => d === query\<close>, the
  normalization \<open>s => s\<close>, and a normalization that throws on every argument.
\<close>

definition exact_factory :: factory where
  "exact_factory this_normalize query = Inr (\<lambda>this_normalize' d. Inr (d = query))"

definition identity_normalize :: normalizer where
  "identity_normalize s = Inr s"

definition raising_normalize :: normalizer where
  "raising_normalize s = Inl (Thrown ''no normalization'')"

section \<open>Auxiliary facts\<close>

lemma and_then_Inr [simp]: "and_then (Inr x) f = f x"
  by (simp add: and_then_def)

lemma and_then_Inl [simp]: "and_then (Inl e) f = Inl e"
  by (simp add: and_then_def)

text \<open>\<open>indexOf\<close> answers \<open>-1\<close> exactly when the searched string does not occur.\<close>

lemma indexOf_from_sublist: "indexOf_from k s q \<noteq> - 1 \<longleftrightarrow> sublist q s"
  by (induction s arbitrary: k) (auto simp: sublist_Cons_right)

lemma indexOf_sublist: "indexOf s q \<noteq> - 1 \<longleftrightarrow> sublist q s"
  by (simp add: indexOf_def indexOf_from_sublist)

text \<open>
  The default factory tests containment after normalization, whatever function from
  strings to strings the normalization is; which characters \<open>toLowerCase\<close> changes
  plays no part.
\<close>

lemma default_filter_any_normalization:
  assumes "\<And>s. n (Str s) = Inr (Str (g s))"
  shows "and_then (default_filterFunctionFactory n (Str q)) (\<lambda>p. p n (Str d))
           = Inr (sublist (g q) (g d))"
  by (simp add: default_filterFunctionFactory_def default_predicate_def assms indexOf_sublist)

text \<open>The constructor: what it returns, and what it needs.\<close>

lemma TextFilterWidget_fresh:
  "TextFilterWidget U BaseMixin_group empty_mount Undefined = Inr (fresh_widget U)"
  by (simp add: TextFilterWidget_def new_instance_def BaseMixin_group_def BaseMixin_anchor_def
      fresh_widget_def)

lemma TextFilterWidget_root:
  "TextFilterWidget U G parent chartGroup = Inr w \<Longrightarrow> base_root w = Some parent"
  by (auto simp: TextFilterWidget_def BaseMixin_anchor_def and_then_def
      split: sum.splits prod.splits)

lemma TextFilterWidget_group:
  "TextFilterWidget U BaseMixin_group parent chartGroup = Inr w \<Longrightarrow>
   base_group w = Some group_thrower"
  by (auto simp: TextFilterWidget_def new_instance_def BaseMixin_group_def BaseMixin_anchor_def)

lemma toLowerCase_lit:
  "toLowerCase U (lit ''John Coltrane'') = lit ''john coltrane''"
  "toLowerCase U (lit ''colt'') = lit ''colt''" "toLowerCase U (lit ''COLT'') = lit ''colt''"
  "toLowerCase U (lit ''cole'') = lit ''cole''" "toLowerCase U (lit ''COLE'') = lit ''cole''"
  "toLowerCase U (lit ''coln'') = lit ''coln''"
  by code_simp+

subsection \<open>Elements and forests\<close>

lemma set_childNodes_sel [simp]:
  "tagName (set_childNodes ch n) = tagName n"
  "classNames (set_childNodes ch n) = classNames n"
  "attributes (set_childNodes ch n) = attributes n"
  "listeners (set_childNodes ch n) = listeners n"
  "childNodes (set_childNodes ch n) = ch"
  by (simp_all add: set_childNodes_def)

lemma set_childNodes_Element [simp]:
  "set_childNodes ch (Element t c a l ch') = Element t c a l ch"
  by (simp add: set_childNodes_def)

lemma set_childNodes_twice [simp]:
  "set_childNodes ch (set_childNodes ch' n) = set_childNodes ch n"
  by (simp add: set_childNodes_def)

lemma set_childNodes_select_remove [simp]:
  "set_childNodes ch (d3_select_remove t r) = set_childNodes ch r"
  by (simp add: d3_select_remove_def split: option.splits)

lemma d3_attr_sel [simp]:
  "tagName (d3_attr a v n) = tagName n"
  "classNames (d3_attr a v n) = classNames n"
  "listeners (d3_attr a v n) = listeners n"
  "childNodes (d3_attr a v n) = childNodes n"
  by (simp_all add: d3_attr_def)

lemma count_tag_append: "count_tag t (xs @ ys) = count_tag t xs + count_tag t ys"
  by (induction t xs rule: count_tag.induct) auto

lemma count_tag_Cons:
  "count_tag t (n # ns) =
     (if tagName n = t then 1 else 0) + count_tag t (childNodes n) + count_tag t ns"
  by (cases n) simp

text \<open>
  \<open>select\<close> finds nothing exactly when no element has the tag; a removal takes at
  least one such element away.
\<close>

lemma select_remove_None: "select_remove t ns = None \<longleftrightarrow> count_tag t ns = 0"
  by (induction t ns rule: select_remove.induct) (auto split: option.splits)

lemma select_remove_Some:
  "select_remove t ns = Some ns' \<Longrightarrow> count_tag t ns' < count_tag t ns"
  by (induction t ns arbitrary: ns' rule: select_remove.induct)
     (auto split: option.splits if_splits)

lemma count_tag_d3_select_remove:
  "count_tag t (childNodes (d3_select_remove t r)) \<le> count_tag t (childNodes r) - 1"
  using select_remove_Some [of t "childNodes r"]
  by (auto simp: d3_select_remove_def select_remove_None split: option.splits)

lemma selectAll_each_append:
  "selectAll_each t f (xs @ ys) = selectAll_each t f xs @ selectAll_each t f ys"
  by (induction t f xs rule: selectAll_each.induct) auto

lemma length_selectAll_each [simp]: "length (selectAll_each t f ns) = length ns"
  by (induction t f ns rule: selectAll_each.induct) auto

lemma count_tag_selectAll_each:
  "(\<And>n. tagName (f n) = tagName n) \<Longrightarrow>
   count_tag t (selectAll_each t' f ns) = count_tag t ns"
proof (induction t' f ns rule: selectAll_each.induct)
  case (1 t f)
  then show ?case by simp
next
  case (2 t' f tg cs at ls ch ns)
  have "tagName (f (Element tg cs at ls ch)) = tg" using "2.prems" by simp
  then show ?case using "2.IH" "2.prems"
    by (cases "f (Element tg cs at ls ch)") (auto simp: set_childNodes_def)
qed

lemma selectAll_each_twice:
  "selectAll_each t (d3_attr a u) (selectAll_each t (d3_attr a v) ns)
     = selectAll_each t (d3_attr a u) ns"
  by (induction t "d3_attr a v" ns rule: selectAll_each.induct)
     (auto simp: set_childNodes_def d3_attr_def)

lemma selectAll_each_nth:
  "i < length ns \<Longrightarrow> tagName (ns ! i) = t \<Longrightarrow>
   selectAll_each t f ns ! i =
     set_childNodes (selectAll_each t f (childNodes (ns ! i))) (f (ns ! i))"
proof (induction t f ns arbitrary: i rule: selectAll_each.induct)
  case (1 t f)
  then show ?case by simp
next
  case (2 t f tg cs at ls ch ns)
  then show ?case by (cases i) auto
qed

lemma count_tag_nth:
  "i < length ns \<Longrightarrow> tagName (ns ! i) = t \<Longrightarrow> 0 < count_tag t ns"
proof (induction t ns arbitrary: i rule: count_tag.induct)
  case (1 t)
  then show ?case by simp
next
  case (2 t tg cs at ls ch ns)
  then show ?case by (cases i) auto
qed

text \<open>
  Where no element has the tag, \<open>selectAll\<close> selects nothing; where the one element
  with the tag is a child, only that child changes.
\<close>

lemma selectAll_each_id: "count_tag t ns = 0 \<Longrightarrow> selectAll_each t f ns = ns"
  by (induction t f ns rule: selectAll_each.induct) (auto split: if_splits)

lemma selectAll_each_single:
  "i < length ns \<Longrightarrow> tagName (ns ! i) = t \<Longrightarrow> count_tag t ns = 1 \<Longrightarrow>
   selectAll_each t (d3_attr a v) ns = ns[i := d3_attr a v (ns ! i)]"
proof (induction t "d3_attr a v" ns arbitrary: i rule: selectAll_each.induct)
  case (1 t)
  then show ?case by simp
next
  case (2 t tg cs at ls ch ns)
  show ?case
  proof (cases i)
    case 0
    with "2.prems" have "tg = t" "count_tag t ch = 0" "count_tag t ns = 0" by auto
    then show ?thesis using 0
      by (simp add: selectAll_each_id d3_attr_def)
  next
    case (Suc j)
    with "2.prems" have j: "j < length ns" "tagName (ns ! j) = t" by auto
    from count_tag_nth [OF j] "2.prems"(3)
    have c: "tg \<noteq> t" "count_tag t ch = 0" "count_tag t ns = 1"
      by (auto split: if_splits)
    from "2.hyps"(3) [OF j c(3)] c(1,2) Suc show ?thesis
      by (simp add: selectAll_each_id)
  qed
qed

lemma all_tagged_selectAll_each:
  "all_tagged t (\<lambda>m. attributes m a = Some x) (selectAll_each t (d3_attr a (Str x)) ns)"
  by (induction t "d3_attr a (Str x)" ns rule: selectAll_each.induct)
     (auto simp: d3_attr_def)

lemma erase_redraw:
  "d3_selectAll_attr t a u (d3_selectAll_attr t a v r) = d3_selectAll_attr t a u r"
  by (simp add: d3_selectAll_attr_def selectAll_each_twice)

subsection \<open>What \<open>_doRender\<close> computes\<close>

lemma doRender_eq:
  assumes "base_root w = Some r"
  shows "doRender w =
    Inr (w\<lparr>base_root := Some (set_childNodes
             (selectAll_each ''input'' (d3_attr ''placeholder'' (priv_placeHolder w))
                (childNodes (d3_select_remove ''input'' r))
              @ [d3_attr ''placeholder'' (priv_placeHolder w)
                   (Element ''input'' [INPUT_CSS_CLASS] Map.empty [(''input'', InputListener)] [])]) r),
           priv_input := Some (length (childNodes (d3_select_remove ''input'' r)))\<rparr>)"
  using assms
  by (simp add: doRender_def doRedraw_def Let_def d3_append_def on_child_def d3_classed_def
      d3_on_def d3_selectAll_attr_def selectAll_each_append nth_append d3_attr_def)

lemma doRender_once:
  assumes "base_root w = Some r"
  shows "\<exists>w' r' n. doRender w = Inr w' \<and> base_root w' = Some r' \<and>
           count_tag ''input'' (childNodes r')
             = count_tag ''input'' (childNodes (d3_select_remove ''input'' r)) + 1 \<and>
           rendered_input w' = Some n \<and> tagName n = ''input'' \<and>
           classNames n = [INPUT_CSS_CLASS] \<and>
           map_of (listeners n) ''input'' = Some InputListener \<and> childNodes n = [] \<and>
           priv_normalize w' = priv_normalize w \<and>
           priv_filterFunctionFactory w' = priv_filterFunctionFactory w \<and>
           priv_placeHolder w' = priv_placeHolder w \<and>
           base_dimension w' = base_dimension w \<and> triggered w' = triggered w"
  by (simp add: doRender_eq [OF assms] rendered_input_def count_tag_append
      count_tag_selectAll_each nth_append count_tag_Cons)

lemma render_times_single:
  assumes "base_root w = Some r" and "count_tag ''input'' (childNodes r) \<le> 1"
  shows "\<exists>w' n. render_times (Suc k) w = Inr w' \<and> input_count w' = 1 \<and>
           rendered_input w' = Some n \<and> tagName n = ''input'' \<and>
           classNames n = [INPUT_CSS_CLASS]"
  using assms
proof (induction k arbitrary: w r)
  case 0
  have "count_tag ''input'' (childNodes (d3_select_remove ''input'' r)) = 0"
    using count_tag_d3_select_remove [of "''input''" r] "0.prems"(2) by simp
  with doRender_once [OF "0.prems"(1)] show ?case
    by (auto simp: input_count_def)
next
  case (Suc k)
  have z: "count_tag ''input'' (childNodes (d3_select_remove ''input'' r)) = 0"
    using count_tag_d3_select_remove [of "''input''" r] Suc.prems(2) by simp
  from doRender_once [OF Suc.prems(1)] obtain w1 r1 where
    w1: "doRender w = Inr w1" "base_root w1 = Some r1"
      "count_tag ''input'' (childNodes r1)
         = count_tag ''input'' (childNodes (d3_select_remove ''input'' r)) + 1"
    by blast
  have "count_tag ''input'' (childNodes r1) \<le> 1" using w1(3) z by simp
  from Suc.IH [OF w1(2) this] show ?case
    using w1(1) by simp
qed

lemma rendered_inputD:
  assumes "rendered_input w = Some n"
  obtains r i where "base_root w = Some r" "priv_input w = Some i"
    "i < length (childNodes r)" "n = childNodes r ! i"
  using assms
  by (auto simp: rendered_input_def split: option.splits if_splits)

lemma keystroke_listener:
  assumes "rendered_input w = Some n" and "map_of (listeners n) ''input'' = Some InputListener"
  shows "keystroke D text w = input_listener D (Str text) w"
  using assms by (simp add: keystroke_def)

subsection \<open>Operations keep the mount point\<close>

lemma perform_root:
  assumes "base_root w \<noteq> None"
  shows "\<exists>w'. perform op w = Inr w' \<and> base_root w' \<noteq> None"
proof (cases op)
  case Render
  from assms obtain r where "base_root w = Some r" by auto
  from doRender_once [OF this] show ?thesis using Render by auto
next
  case Redraw
  with assms show ?thesis by (auto simp: doRedraw_def)
next
  case (Normalize args)
  with assms show ?thesis by (simp add: normalize_acc_def)
next
  case (PlaceHolder args)
  with assms show ?thesis by (simp add: placeHolder_def)
next
  case (FilterFunctionFactory args)
  with assms show ?thesis by (simp add: filterFunctionFactory_def)
qed

lemma perform_all_root:
  "base_root w \<noteq> None \<Longrightarrow> \<exists>w'. perform_all ops w = Inr w' \<and> base_root w' \<noteq> None"
proof (induction ops arbitrary: w)
  case Nil
  then show ?case by simp
next
  case (Cons op ops)
  from perform_root [OF Cons.prems] obtain w1 where
    "perform op w = Inr w1" "base_root w1 \<noteq> None" by blast
  with Cons.IH [of w1] show ?case by simp
qed

lemma perform_group: "perform op w = Inr w' \<Longrightarrow> base_group w' = base_group w"
  by (cases op)
     (auto simp: doRender_def doRedraw_def Let_def normalize_acc_def placeHolder_def
       filterFunctionFactory_def split: option.splits)

lemma perform_all_group: "perform_all ops w = Inr w' \<Longrightarrow> base_group w' = base_group w"
proof (induction ops arbitrary: w)
  case Nil
  then show ?case by simp
next
  case (Cons op ops)
  then show ?case
    by (cases "perform op w") (auto dest: perform_group)
qed

lemma perform_not_Thrown: "perform op w \<noteq> Inl (Thrown m)"
  by (cases op) (auto simp: doRender_def doRedraw_def Let_def split: option.splits)

section \<open>The default filter\<close>

text \<open>
  Claim C1, as amended. For all strings \<open>q\<close> and \<open>d\<close>, the predicate that the default
  factory builds from \<open>q\<close> answers, for the record value \<open>d\<close>, whether the lowercased
  \<open>d\<close> contains the lowercased \<open>q\<close> as a substring; the default normalization is
  lowercasing. For the record value "John Coltrane" the queries "colt" and "COLT"
  give true, and the queries "cole", "COLE" and "coln" give false: "john coltrane"
  does not contain "cole".
\<close>

theorem default_filter_contains:
  "default_normalize U (Str s) = Inr (Str (toLowerCase U s)) \<and>
   build_then_call (fresh_widget U) (Str q) (fresh_widget U) (Str d)
     = Inr (sublist (toLowerCase U q) (toLowerCase U d)) \<and>
   toLowerCase U (lit ''John Coltrane'') = lit ''john coltrane'' \<and>
   build_then_call (fresh_widget U) (Str (lit ''colt'')) (fresh_widget U)
     (Str (lit ''John Coltrane'')) = Inr True \<and>
   build_then_call (fresh_widget U) (Str (lit ''COLT'')) (fresh_widget U)
     (Str (lit ''John Coltrane'')) = Inr True \<and>
   build_then_call (fresh_widget U) (Str (lit ''cole'')) (fresh_widget U)
     (Str (lit ''John Coltrane'')) = Inr False \<and>
   build_then_call (fresh_widget U) (Str (lit ''COLE'')) (fresh_widget U)
     (Str (lit ''John Coltrane'')) = Inr False \<and>
   build_then_call (fresh_widget U) (Str (lit ''coln'')) (fresh_widget U)
     (Str (lit ''John Coltrane'')) = Inr False"
proof -
  have gen: "build_then_call (fresh_widget U) (Str q) (fresh_widget U) (Str d)
     = Inr (sublist (toLowerCase U q) (toLowerCase U d))" for q d
    by (simp add: build_then_call_def fresh_widget_def default_filterFunctionFactory_def
        default_predicate_def default_normalize_def indexOf_sublist)
  have sub: "sublist (lit ''colt'') (lit ''john coltrane'')"
    "\<not> sublist (lit ''cole'') (lit ''john coltrane'')"
    "\<not> sublist (lit ''coln'') (lit ''john coltrane'')"
    by code_simp+
  show ?thesis
    by (simp add: gen toLowerCase_lit sub) (simp add: default_normalize_def)
qed

text \<open>
  Claim C1 as it was stated fails on its own examples: for the record value
  "John Coltrane" the queries "cole" and "COLE" give false, not true, whatever the
  case mapping does outside ASCII.
\<close>

theorem cole_counterexample:
  "\<forall>U. build_then_call (fresh_widget U) (Str (lit ''cole'')) (fresh_widget U)
          (Str (lit ''John Coltrane'')) = Inr False \<and>
        build_then_call (fresh_widget U) (Str (lit ''COLE'')) (fresh_widget U)
          (Str (lit ''John Coltrane'')) = Inr False"
proof
  fix U
  show "build_then_call (fresh_widget U) (Str (lit ''cole'')) (fresh_widget U)
          (Str (lit ''John Coltrane'')) = Inr False \<and>
        build_then_call (fresh_widget U) (Str (lit ''COLE'')) (fresh_widget U)
          (Str (lit ''John Coltrane'')) = Inr False"
    by code_simp
qed

text \<open>
  Claim C7. The default factory accepts every query string (it returns a predicate
  and raises nothing), and the predicate it builds from the empty string answers true
  for every string record value.
\<close>

theorem empty_query_matches:
  "\<not> isl (priv_filterFunctionFactory (fresh_widget U) (priv_normalize (fresh_widget U)) (Str q)) \<and>
   build_then_call (fresh_widget U) (Str []) (fresh_widget U) (Str d) = Inr True"
  by (simp add: build_then_call_def fresh_widget_def default_filterFunctionFactory_def
        default_predicate_def default_normalize_def indexOf_sublist toLowerCase_def)

text \<open>
  Claim C10. In the default factory the query is normalized once, when the factory
  is applied, by the normalization function of that moment; a record value is
  normalized at each call of the predicate, by the normalization function of that
  call. So after \<open>normalize(n')\<close> a predicate built before compares record values
  normalized by \<open>n'\<close> with the query as the earlier function normalized it.
\<close>

theorem query_normalized_once:
  assumes "priv_filterFunctionFactory w = default_filterFunctionFactory"
  shows "build_then_call w q (snd (normalize_acc [n'] w)) d =
     and_then (priv_normalize w q) (\<lambda>q'.
       and_then (n' d) (\<lambda>nd. and_then (call_indexOf nd q') (\<lambda>i. Inr (i \<noteq> - 1))))"
  using assms
  by (cases "priv_normalize w q")
     (simp_all add: build_then_call_def normalize_acc_def default_filterFunctionFactory_def
       default_predicate_def)

theorem query_normalized_once_witness:
  "\<forall>U. priv_filterFunctionFactory (fresh_widget U) = default_filterFunctionFactory \<and>
   build_then_call (fresh_widget U) (Str (lit ''COLT'')) (fresh_widget U)
     (Str (lit ''John Coltrane'')) = Inr True \<and>
   build_then_call (fresh_widget U) (Str (lit ''COLT''))
     (snd (normalize_acc [identity_normalize] (fresh_widget U)))
     (Str (lit ''John Coltrane'')) = Inr False \<and>
   build_then_call (fresh_widget U) (Str (lit ''COLT''))
     (snd (normalize_acc [identity_normalize] (fresh_widget U)))
     (Str (lit ''john coltrane'')) = Inr True"
proof
  fix U
  have f: "priv_filterFunctionFactory (fresh_widget U) = default_filterFunctionFactory"
    by (simp add: fresh_widget_def)
  have n: "priv_normalize (fresh_widget U) (Str (lit ''COLT'')) = Inr (Str (lit ''colt''))"
    by (simp add: fresh_widget_def default_normalize_def toLowerCase_lit)
  have i: "indexOf (lit ''John Coltrane'') (lit ''colt'') = - 1"
    "indexOf (lit ''john coltrane'') (lit ''colt'') \<noteq> - 1"
    by code_simp+
  have t: "build_then_call (fresh_widget U) (Str (lit ''COLT'')) (fresh_widget U)
      (Str (lit ''John Coltrane'')) = Inr True"
    by code_simp
  show "priv_filterFunctionFactory (fresh_widget U) = default_filterFunctionFactory \<and>
   build_then_call (fresh_widget U) (Str (lit ''COLT'')) (fresh_widget U)
     (Str (lit ''John Coltrane'')) = Inr True \<and>
   build_then_call (fresh_widget U) (Str (lit ''COLT''))
     (snd (normalize_acc [identity_normalize] (fresh_widget U)))
     (Str (lit ''John Coltrane'')) = Inr False \<and>
   build_then_call (fresh_widget U) (Str (lit ''COLT''))
     (snd (normalize_acc [identity_normalize] (fresh_widget U)))
     (Str (lit ''john coltrane'')) = Inr True"
    using query_normalized_once [OF f, of "Str (lit ''COLT'')" identity_normalize
        "Str (lit ''John Coltrane'')"]
      query_normalized_once [OF f, of "Str (lit ''COLT'')" identity_normalize
        "Str (lit ''john coltrane'')"]
    by (simp add: f n i t identity_normalize_def)
qed

section \<open>The accessors\<close>

text \<open>
  Claim C6. Each of \<open>normalize\<close>, \<open>placeHolder\<close> and \<open>filterFunctionFactory\<close>,
  called without an argument, returns the current value of its field and changes
  nothing; called with one argument, whatever it is, it stores the argument in its
  field and returns the instance; the value stored is the value read next.
\<close>

theorem accessors_get_set:
  "normalize_acc [] w = (Val (priv_normalize w), w) \<and>
   normalize_acc [n] w = (This, w\<lparr>priv_normalize := n\<rparr>) \<and>
   fst (normalize_acc [] (snd (normalize_acc [n] w))) = Val n \<and>
   placeHolder [] w = (Val (priv_placeHolder w), w) \<and>
   placeHolder [v] w = (This, w\<lparr>priv_placeHolder := v\<rparr>) \<and>
   fst (placeHolder [] (snd (placeHolder [v] w))) = Val v \<and>
   filterFunctionFactory [] w = (Val (priv_filterFunctionFactory w), w) \<and>
   filterFunctionFactory [f] w = (This, w\<lparr>priv_filterFunctionFactory := f\<rparr>) \<and>
   fst (filterFunctionFactory [] (snd (filterFunctionFactory [f] w))) = Val f"
  by (simp add: normalize_acc_def placeHolder_def filterFunctionFactory_def)

text \<open>
  Claim C9. A call of an accessor with one argument changes no configuration field
  but its own: \<open>placeHolder(v)\<close> leaves the normalization function and the factory as
  they are, \<open>normalize(n)\<close> the placeholder text and the factory,
  \<open>filterFunctionFactory(f)\<close> the placeholder text and the normalization function.
\<close>

theorem accessors_frame:
  "priv_normalize (snd (placeHolder [v] w)) = priv_normalize w \<and>
   priv_filterFunctionFactory (snd (placeHolder [v] w)) = priv_filterFunctionFactory w \<and>
   priv_placeHolder (snd (normalize_acc [n] w)) = priv_placeHolder w \<and>
   priv_filterFunctionFactory (snd (normalize_acc [n] w)) = priv_filterFunctionFactory w \<and>
   priv_placeHolder (snd (filterFunctionFactory [f] w)) = priv_placeHolder w \<and>
   priv_normalize (snd (filterFunctionFactory [f] w)) = priv_normalize w"
  by (simp add: normalize_acc_def placeHolder_def filterFunctionFactory_def)

section \<open>Rendering\<close>

text \<open>
  Claim C4, as amended. When the mount point holds at most one input element before
  \<open>_doRender\<close> (an empty mount point, or one on which the widget was rendered before),
  then after any positive number of renders in succession exactly one input element
  exists under it, the one \<open>_input\<close> refers to, tagged with the fixed style class. A
  render removes the first input element under the mount point, if there is one, then
  appends one new input element with the style class and the listener, and applies the
  placeholder text.
\<close>

theorem render_single_input:
  assumes "base_root w = Some r" and "count_tag ''input'' (childNodes r) \<le> 1" and "0 < k"
  shows "(\<exists>w' n. render_times k w = Inr w' \<and> input_count w' = 1 \<and>
            rendered_input w' = Some n \<and> tagName n = ''input'' \<and>
            classNames n = [INPUT_CSS_CLASS]) \<and>
         (\<exists>w1 r1. doRender w = Inr w1 \<and> base_root w1 = Some r1 \<and>
            childNodes r1 =
              selectAll_each ''input'' (d3_attr ''placeholder'' (priv_placeHolder w))
                (childNodes (d3_select_remove ''input'' r))
              @ [d3_attr ''placeholder'' (priv_placeHolder w)
                   (Element ''input'' [INPUT_CSS_CLASS] Map.empty
                      [(''input'', InputListener)] [])])"
proof
  from assms(3) obtain j where "k = Suc j" by (cases k) auto
  with render_times_single [OF assms(1,2), of j]
  show "\<exists>w' n. render_times k w = Inr w' \<and> input_count w' = 1 \<and>
            rendered_input w' = Some n \<and> tagName n = ''input'' \<and>
            classNames n = [INPUT_CSS_CLASS]"
    by simp
next
  show "\<exists>w1 r1. doRender w = Inr w1 \<and> base_root w1 = Some r1 \<and>
            childNodes r1 =
              selectAll_each ''input'' (d3_attr ''placeholder'' (priv_placeHolder w))
                (childNodes (d3_select_remove ''input'' r))
              @ [d3_attr ''placeholder'' (priv_placeHolder w)
                   (Element ''input'' [INPUT_CSS_CLASS] Map.empty
                      [(''input'', InputListener)] [])]"
    by (simp add: doRender_eq [OF assms(1)])
qed

text \<open>Three renders of the fresh instance on the empty mount point leave one input.\<close>

theorem render_single_input_witness:
  "\<forall>U. base_root (fresh_widget U) = Some empty_mount \<and>
        count_tag ''input'' (childNodes empty_mount) \<le> 1 \<and>
        map_sum id input_count (render_times 3 (fresh_widget U)) = Inr 1"
proof
  fix U
  have r: "base_root (fresh_widget U) = Some empty_mount" by (simp add: fresh_widget_def)
  have c: "count_tag ''input'' (childNodes empty_mount) \<le> 1" by (simp add: empty_mount_def)
  have k: "(0::nat) < 3" by simp
  from render_single_input [OF r c k] obtain w' where
    "render_times 3 (fresh_widget U) = Inr w'" "input_count w' = 1" by blast
  then show "base_root (fresh_widget U) = Some empty_mount \<and>
        count_tag ''input'' (childNodes empty_mount) \<le> 1 \<and>
        map_sum id input_count (render_times 3 (fresh_widget U)) = Inr 1"
    using r c by simp
qed

text \<open>
  Claim C4 as it was stated fails on a mount point that holds two input elements
  before the widget is rendered: \<open>select\<close> takes the first of them only, so two input
  elements exist after one render, and after three.
\<close>

theorem crowded_mount_counterexample:
  "\<forall>U. map_sum id input_count
          (and_then (TextFilterWidget U BaseMixin_group crowded_mount Undefined) doRender)
          = Inr 2 \<and>
        map_sum id input_count
          (and_then (TextFilterWidget U BaseMixin_group crowded_mount Undefined)
             (render_times 3))
          = Inr 2"
proof
  fix U
  show "map_sum id input_count
          (and_then (TextFilterWidget U BaseMixin_group crowded_mount Undefined) doRender)
          = Inr 2 \<and>
        map_sum id input_count
          (and_then (TextFilterWidget U BaseMixin_group crowded_mount Undefined)
             (render_times 3))
          = Inr 2"
    by code_simp
qed

text \<open>
  Claim C5, as amended. For every string \<open>P\<close>, and every state in which \<open>_input\<close>
  refers to an input element under the mount point, \<open>placeHolder(P)\<close> followed by
  \<open>_doRedraw\<close> leaves every input element under the mount point, the rendered one
  among them, with the placeholder attribute \<open>P\<close>; the rendered element keeps its
  tag, classes, listeners and other attributes. The redraw changes no field of the
  instance but the document under the mount point, and the document only in
  placeholder attributes of input elements. When the rendered element is the only input
  element under the mount point, its placeholder attribute is all that the redraw
  changes.
\<close>

theorem placeholder_redraw:
  assumes "base_root w = Some r" and "rendered_input w = Some n" and "tagName n = ''input''"
  shows "\<exists>w' r' n'. doRedraw (snd (placeHolder [Str P] w)) = Inr w' \<and>
      base_root w' = Some r' \<and>
      rendered_input w' = Some n' \<and> attributes n' ''placeholder'' = Some P \<and>
      tagName n' = tagName n \<and> classNames n' = classNames n \<and> listeners n' = listeners n \<and>
      (attributes n')(''placeholder'' := None) = (attributes n)(''placeholder'' := None) \<and>
      all_tagged ''input'' (\<lambda>m. attributes m ''placeholder'' = Some P) (childNodes r') \<and>
      w'\<lparr>base_root := base_root w\<rparr> = snd (placeHolder [Str P] w) \<and>
      d3_selectAll_attr ''input'' ''placeholder'' Undefined r'
        = d3_selectAll_attr ''input'' ''placeholder'' Undefined r \<and>
      (input_count w = 1 \<longrightarrow>
         (\<exists>i. priv_input w = Some i \<and>
              r' = set_childNodes
                     ((childNodes r)[i := d3_attr ''placeholder'' (Str P) n]) r))"
proof -
  from assms(2) obtain r0 i where
    ri0: "base_root w = Some r0" "priv_input w = Some i" "i < length (childNodes r0)"
      "n = childNodes r0 ! i"
    by (rule rendered_inputD)
  with assms(1) have ri: "priv_input w = Some i" "i < length (childNodes r)"
      "n = childNodes r ! i"
    by simp_all
  let ?f = "d3_attr ''placeholder'' (Str P)"
  let ?r' = "d3_selectAll_attr ''input'' ''placeholder'' (Str P) r"
  let ?w' = "w\<lparr>priv_placeHolder := Str P, base_root := Some ?r'\<rparr>"
  have upd: "snd (placeHolder [Str P] w) = w\<lparr>priv_placeHolder := Str P\<rparr>"
    by (simp add: placeHolder_def)
  have run: "doRedraw (w\<lparr>priv_placeHolder := Str P\<rparr>) = Inr ?w'"
    by (simp add: doRedraw_def assms(1))
  have nth: "childNodes ?r' ! i =
      set_childNodes (selectAll_each ''input'' ?f (childNodes n)) (?f n)"
    using selectAll_each_nth [of i "childNodes r" "''input''" ?f] ri(2,3) assms(3)
    by (simp add: d3_selectAll_attr_def)
  have inp: "rendered_input ?w' = Some (childNodes ?r' ! i)"
    using ri by (simp add: rendered_input_def d3_selectAll_attr_def)
  have attr: "attributes (?f n) = (attributes n)(''placeholder'' \<mapsto> P)"
    by (simp add: d3_attr_def)
  have all: "all_tagged ''input'' (\<lambda>m. attributes m ''placeholder'' = Some P) (childNodes ?r')"
    by (simp add: d3_selectAll_attr_def all_tagged_selectAll_each)
  have one: "?r' = set_childNodes ((childNodes r)[i := ?f n]) r" if "input_count w = Suc 0"
  proof -
    from that have "count_tag ''input'' (childNodes r) = 1"
      by (simp add: input_count_def assms(1))
    from selectAll_each_single [OF ri(2) _ this, of "''placeholder''" "Str P"] assms(3) ri(3)
    show ?thesis by (simp add: d3_selectAll_attr_def)
  qed
  show ?thesis
    apply (rule exI [of _ ?w'], rule exI [of _ ?r'], rule exI [of _ "childNodes ?r' ! i"])
    apply (simp add: upd run inp nth attr assms(1) erase_redraw all ri(1))
    apply (rule impI, erule one)
    done
qed

text \<open>
  The fresh instance, rendered, holds one input element; after
  \<open>placeHolder('type to filter')\<close> and a redraw that element has the new placeholder.
\<close>

theorem placeholder_redraw_witness:
  "\<forall>U. map_sum id input_count (doRender (fresh_widget U)) = Inr 1 \<and>
        map_sum id
          (\<lambda>w'. map_option (\<lambda>n. (tagName n, attributes n ''placeholder'')) (rendered_input w'))
          (and_then (doRender (fresh_widget U))
             (\<lambda>w. doRedraw (snd (placeHolder [Str (lit ''type to filter'')] w))))
        = Inr (Some (''input'', Some (lit ''type to filter'')))"
proof
  fix U
  have r: "base_root (fresh_widget U) = Some empty_mount" by (simp add: fresh_widget_def)
  have z: "count_tag ''input'' (childNodes (d3_select_remove ''input'' empty_mount)) = 0"
    by (simp add: empty_mount_def d3_select_remove_def)
  from doRender_once [OF r] obtain w r' n where
    w: "doRender (fresh_widget U) = Inr w" "base_root w = Some r'"
      "count_tag ''input'' (childNodes r')
         = count_tag ''input'' (childNodes (d3_select_remove ''input'' empty_mount)) + 1"
      "rendered_input w = Some n" "tagName n = ''input''"
    by blast
  have c: "input_count w = 1" using w(2,3) z by (simp add: input_count_def)
  from placeholder_redraw [OF w(2,4,5), of "lit ''type to filter''"] w(1,5) c
  show "map_sum id input_count (doRender (fresh_widget U)) = Inr 1 \<and>
        map_sum id
          (\<lambda>w'. map_option (\<lambda>n. (tagName n, attributes n ''placeholder'')) (rendered_input w'))
          (and_then (doRender (fresh_widget U))
             (\<lambda>w. doRedraw (snd (placeHolder [Str (lit ''type to filter'')] w))))
        = Inr (Some (''input'', Some (lit ''type to filter'')))"
    by auto
qed

text \<open>
  Claim C5 as it was stated fails when another input element is under the mount point.
  After a render on the mount point with two input elements, \<open>_input\<close> refers to the
  child at position 1 and a foreign input element is at position 0, both with the
  placeholder "search"; \<open>placeHolder('P')\<close> leaves the document as it is; the redraw
  then rewrites the placeholder of the foreign element too.
\<close>

theorem foreign_input_counterexample:
  "\<forall>U. map_sum id
          (\<lambda>w. (priv_input w,
                 map_option (\<lambda>r. map (\<lambda>m. (tagName m, attributes m ''placeholder''))
                   (childNodes r)) (base_root w)))
          (and_then (TextFilterWidget U BaseMixin_group crowded_mount Undefined) doRender)
        = Inr (Some 1, Some [(''input'', Some (lit ''search'')), (''input'', Some (lit ''search''))]) \<and>
        map_sum id
          (\<lambda>w. (priv_input w,
                 map_option (\<lambda>r. map (\<lambda>m. (tagName m, attributes m ''placeholder''))
                   (childNodes r)) (base_root w)))
          (and_then (TextFilterWidget U BaseMixin_group crowded_mount Undefined)
             (\<lambda>w. and_then (doRender w)
                (\<lambda>w. Inr (snd (placeHolder [Str (lit ''P'')] w)))))
        = Inr (Some 1, Some [(''input'', Some (lit ''search'')), (''input'', Some (lit ''search''))]) \<and>
        map_sum id
          (\<lambda>w. (priv_input w,
                 map_option (\<lambda>r. map (\<lambda>m. (tagName m, attributes m ''placeholder''))
                   (childNodes r)) (base_root w)))
          (and_then (TextFilterWidget U BaseMixin_group crowded_mount Undefined)
             (\<lambda>w. and_then (doRender w)
                (\<lambda>w. doRedraw (snd (placeHolder [Str (lit ''P'')] w)))))
        = Inr (Some 1, Some [(''input'', Some (lit ''P'')), (''input'', Some (lit ''P''))])"
proof
  fix U
  show "map_sum id
          (\<lambda>w. (priv_input w,
                 map_option (\<lambda>r. map (\<lambda>m. (tagName m, attributes m ''placeholder''))
                   (childNodes r)) (base_root w)))
          (and_then (TextFilterWidget U BaseMixin_group crowded_mount Undefined) doRender)
        = Inr (Some 1, Some [(''input'', Some (lit ''search'')), (''input'', Some (lit ''search''))]) \<and>
        map_sum id
          (\<lambda>w. (priv_input w,
                 map_option (\<lambda>r. map (\<lambda>m. (tagName m, attributes m ''placeholder''))
                   (childNodes r)) (base_root w)))
          (and_then (TextFilterWidget U BaseMixin_group crowded_mount Undefined)
             (\<lambda>w. and_then (doRender w)
                (\<lambda>w. Inr (snd (placeHolder [Str (lit ''P'')] w)))))
        = Inr (Some 1, Some [(''input'', Some (lit ''search'')), (''input'', Some (lit ''search''))]) \<and>
        map_sum id
          (\<lambda>w. (priv_input w,
                 map_option (\<lambda>r. map (\<lambda>m. (tagName m, attributes m ''placeholder''))
                   (childNodes r)) (base_root w)))
          (and_then (TextFilterWidget U BaseMixin_group crowded_mount Undefined)
             (\<lambda>w. and_then (doRender w)
                (\<lambda>w. doRedraw (snd (placeHolder [Str (lit ''P'')] w)))))
        = Inr (Some 1, Some [(''input'', Some (lit ''P'')), (''input'', Some (lit ''P''))])"
    by code_simp
qed

section \<open>The input listener\<close>

text \<open>
  Claim C3, as amended. For every input event on the rendered input element of an
  instance with a bound dimension, the listener applies the configured factory to the
  current text of the element as it is, installs the predicate that the factory returns
  as the filter function of the dimension, and hands a redraw callback to the debouncing
  trigger with the fixed delay; an exception of the factory leaves the listener. The
  listener does not normalize the text: the default factory does, with the
  normalization function of that moment.
\<close>

theorem keystroke_installs_filter:
  assumes "rendered_input w = Some n" and "map_of (listeners n) ''input'' = Some InputListener"
    and "base_dimension w = Some dim"
  shows "keystroke D text w =
           and_then (priv_filterFunctionFactory w (priv_normalize w) (Str text)) (\<lambda>p.
             Inr (w\<lparr>base_dimension := Some (Dimension (Some p)),
                    triggered := triggered w @ [(CallRedrawAll [], D)]\<rparr>)) \<and>
         (priv_filterFunctionFactory w = default_filterFunctionFactory \<longrightarrow>
          keystroke D text w =
            and_then (priv_normalize w (Str text)) (\<lambda>q.
              Inr (w\<lparr>base_dimension := Some (Dimension (Some (default_predicate q))),
                     triggered := triggered w @ [(CallRedrawAll [], D)]\<rparr>)))"
proof -
  have eq: "keystroke D text w =
           and_then (priv_filterFunctionFactory w (priv_normalize w) (Str text)) (\<lambda>p.
             Inr (w\<lparr>base_dimension := Some (Dimension (Some p)),
                    triggered := triggered w @ [(CallRedrawAll [], D)]\<rparr>))"
    by (simp add: keystroke_listener [OF assms(1,2)] input_listener_def assms(3)
        events_trigger_def filterFunction_def)
  show ?thesis
    by (cases "priv_normalize w (Str text)")
       (simp_all add: eq default_filterFunctionFactory_def)
qed

text \<open>
  The instance with a bound dimension, rendered: after the text "COLT" is typed the
  filter accepts "John Coltrane", rejects "Miles Davis", and one redraw is pending.
\<close>

theorem keystroke_installs_filter_witness:
  "\<forall>U. map_sum id
          (\<lambda>w. (filter_accepts w (Str (lit ''John Coltrane'')),
                 filter_accepts w (Str (lit ''Miles Davis'')), triggered w))
          (and_then (doRender (bound_widget U)) (keystroke 40 (lit ''COLT'')))
        = Inr (Some (Inr True), Some (Inr False), [(CallRedrawAll [], 40)])"
proof
  fix U
  have r: "base_root (bound_widget U) = Some empty_mount"
    by (simp add: bound_widget_def fresh_widget_def BaseMixin_dimension_def)
  from doRender_once [OF r] obtain w n where
    w: "doRender (bound_widget U) = Inr w" "rendered_input w = Some n"
      "map_of (listeners n) ''input'' = Some InputListener"
      "priv_normalize w = priv_normalize (bound_widget U)"
      "priv_filterFunctionFactory w = priv_filterFunctionFactory (bound_widget U)"
      "base_dimension w = base_dimension (bound_widget U)"
      "triggered w = triggered (bound_widget U)"
    by blast
  have d: "base_dimension w = Some (Dimension None)"
    by (simp add: w(6) bound_widget_def fresh_widget_def BaseMixin_dimension_def)
  have f: "priv_filterFunctionFactory w = default_filterFunctionFactory"
    "priv_normalize w = default_normalize U" "triggered w = []"
    by (simp_all add: w(4,5,7) bound_widget_def fresh_widget_def BaseMixin_dimension_def)
  have q: "default_normalize U (Str (lit ''COLT'')) = Inr (Str (lit ''colt''))"
    by (simp add: default_normalize_def toLowerCase_lit)
  have p: "default_predicate (Str (lit ''colt'')) (default_normalize U)
        (Str (lit ''John Coltrane'')) = Inr True"
    "default_predicate (Str (lit ''colt'')) (default_normalize U)
        (Str (lit ''Miles Davis'')) = Inr False"
    by code_simp+
  from keystroke_installs_filter [OF w(2,3) d, of 40 "lit ''COLT''", THEN conjunct2]
  have "keystroke 40 (lit ''COLT'') w =
      Inr (w\<lparr>base_dimension :=
               Some (Dimension (Some (default_predicate (Str (lit ''colt''))))),
             triggered := [(CallRedrawAll [], 40)]\<rparr>)"
    by (simp add: f q)
  then show "map_sum id
          (\<lambda>w. (filter_accepts w (Str (lit ''John Coltrane'')),
                 filter_accepts w (Str (lit ''Miles Davis'')), triggered w))
          (and_then (doRender (bound_widget U)) (keystroke 40 (lit ''COLT'')))
        = Inr (Some (Inr True), Some (Inr False), [(CallRedrawAll [], 40)])"
    by (simp add: w(1) f p filter_accepts_def)
qed

text \<open>
  Claim C3 as it was stated fails when the configured factory does not normalize.
  With a normalization function that throws on every argument and the factory
  \<open>query => d => d === query\<close>, an input event with the text "A" returns normally
  and the filter accepts "A": the listener never called the normalization function.
  With the default normalization function and the same factory, the filter accepts
  "A" and rejects "a": the predicate was built from the text as typed.
\<close>

theorem listener_counterexample:
  "\<forall>U. raising_normalize (Str (lit ''A'')) = Inl (Thrown ''no normalization'') \<and>
        map_sum id (\<lambda>w. filter_accepts w (Str (lit ''A'')))
          (and_then
             (perform_all
                [Normalize [raising_normalize], FilterFunctionFactory [exact_factory], Render]
                (bound_widget U))
             (keystroke 40 (lit ''A''))) = Inr (Some (Inr True)) \<and>
        map_sum id (\<lambda>w. (filter_accepts w (Str (lit ''A'')), filter_accepts w (Str (lit ''a''))))
          (and_then (perform_all [FilterFunctionFactory [exact_factory], Render] (bound_widget U))
             (keystroke 40 (lit ''A''))) = Inr (Some (Inr True), Some (Inr False))"
proof
  fix U
  show "raising_normalize (Str (lit ''A'')) = Inl (Thrown ''no normalization'') \<and>
        map_sum id (\<lambda>w. filter_accepts w (Str (lit ''A'')))
          (and_then
             (perform_all
                [Normalize [raising_normalize], FilterFunctionFactory [exact_factory], Render]
                (bound_widget U))
             (keystroke 40 (lit ''A''))) = Inr (Some (Inr True)) \<and>
        map_sum id (\<lambda>w. (filter_accepts w (Str (lit ''A'')), filter_accepts w (Str (lit ''a''))))
          (and_then (perform_all [FilterFunctionFactory [exact_factory], Render] (bound_widget U))
             (keystroke 40 (lit ''A''))) = Inr (Some (Inr True), Some (Inr False))"
    by code_simp
qed

section \<open>Failure\<close>

text \<open>
  Claim C8. On an instance with a mount point, as the constructor leaves every
  instance, no sequence of renders, redraws and calls of the three accessors raises an
  error; the default normalization applied to a string raises nothing, nor does the
  default factory applied to a string, nor the predicate it returns applied to a string.
\<close>

theorem operations_total:
  assumes "base_root w \<noteq> None"
  shows "\<not> isl (perform_all ops w) \<and>
         \<not> isl (default_normalize U (Str s)) \<and>
         \<not> isl (default_filterFunctionFactory (default_normalize U) (Str q)) \<and>
         \<not> isl (build_then_call (fresh_widget U) (Str q) (fresh_widget U) (Str d))"
proof -
  from perform_all_root [OF assms] obtain w' where "perform_all ops w = Inr w'" by blast
  then show ?thesis
    by (simp add: default_normalize_def default_filterFunctionFactory_def build_then_call_def
        fresh_widget_def default_predicate_def)
qed

theorem operations_total_witness:
  "\<forall>U. base_root (fresh_widget U) \<noteq> None \<and>
        \<not> isl (perform_all
                 [Render, PlaceHolder [Str (lit ''type to filter'')], Redraw,
                  Normalize [identity_normalize], FilterFunctionFactory [exact_factory],
                  Render, Normalize [], Redraw]
                 (fresh_widget U))"
proof
  fix U
  have r: "base_root (fresh_widget U) \<noteq> None" by (simp add: fresh_widget_def)
  from operations_total [OF r] show "base_root (fresh_widget U) \<noteq> None \<and>
        \<not> isl (perform_all
                 [Render, PlaceHolder [Str (lit ''type to filter'')], Redraw,
                  Normalize [identity_normalize], FilterFunctionFactory [exact_factory],
                  Render, Normalize [], Redraw]
                 (fresh_widget U))"
    using r by blast
qed

text \<open>
  Claim C2. On every instance that the constructor returns, and in every state that
  renders, redraws and calls of the three accessors lead to from there, invoking the
  group accessor raises an error carrying the fixed diagnostic message, whatever the
  arguments (none, one, or more). No operation that the class defines throws a value of
  its own: the function of lines 52 to 54 is the one explicit failure path.
\<close>

theorem group_accessor_raises:
  assumes "TextFilterWidget U BaseMixin_group parent chartGroup = Inr w0"
    and "perform_all ops w0 = Inr w"
  shows "BaseMixin_group [] w = Inl (Thrown group_message) \<and>
         BaseMixin_group [g] w = Inl (Thrown group_message) \<and>
         BaseMixin_group args w = Inl (Thrown group_message) \<and>
         perform op w \<noteq> Inl (Thrown m)"
proof -
  have "base_group w = Some group_thrower"
    using perform_all_group [OF assms(2)] TextFilterWidget_group [OF assms(1)] by simp
  then show ?thesis
    by (simp add: BaseMixin_group_def group_thrower_def perform_not_Thrown)
qed

text \<open>
  The instance on the empty mount point, after a render, a new placeholder text and a
  redraw: these operations return, and \<open>group()\<close> and \<open>group(f)\<close> raise the message.
\<close>

theorem group_accessor_raises_witness:
  "\<forall>U. \<not> isl (and_then (TextFilterWidget U BaseMixin_group empty_mount Undefined)
                 (perform_all [Render, PlaceHolder [Str (lit ''type to filter'')], Redraw])) \<and>
        and_then
          (and_then (TextFilterWidget U BaseMixin_group empty_mount Undefined)
             (perform_all [Render, PlaceHolder [Str (lit ''type to filter'')], Redraw]))
          (BaseMixin_group []) = Inl (Thrown group_message) \<and>
        and_then
          (and_then (TextFilterWidget U BaseMixin_group empty_mount Undefined)
             (perform_all [Render, PlaceHolder [Str (lit ''type to filter'')], Redraw]))
          (BaseMixin_group [group_thrower]) = Inl (Thrown group_message)"
proof
  fix U
  let ?ops = "[Render, PlaceHolder [Str (lit ''type to filter'')], Redraw]"
  have c: "TextFilterWidget U BaseMixin_group empty_mount Undefined = Inr (fresh_widget U)"
    by (rule TextFilterWidget_fresh)
  have "base_root (fresh_widget U) \<noteq> None" by (simp add: fresh_widget_def)
  from perform_all_root [OF this, of ?ops] obtain w where
    w: "perform_all ?ops (fresh_widget U) = Inr w" by blast
  from group_accessor_raises [OF c w]
  show "\<not> isl (and_then (TextFilterWidget U BaseMixin_group empty_mount Undefined)
                 (perform_all ?ops)) \<and>
        and_then
          (and_then (TextFilterWidget U BaseMixin_group empty_mount Undefined)
             (perform_all ?ops))
          (BaseMixin_group []) = Inl (Thrown group_message) \<and>
        and_then
          (and_then (TextFilterWidget U BaseMixin_group empty_mount Undefined)
             (perform_all ?ops))
          (BaseMixin_group [group_thrower]) = Inl (Thrown group_message)"
    by (simp add: c w del: perform_all.simps)
qed

end
